theory Spec2Isabelle
  imports Main
begin

section \<open>Machine sizes\<close>

text \<open>
  The editor core is built with Emscripten for a 32-bit WebAssembly target, so
  \<^verbatim>\<open>size_t\<close> and \<^verbatim>\<open>long\<close> are 32 bits wide.  Sizes are modelled as natural
  numbers below \<open>SIZE\<close>.  Sums and differences that involve a value supplied by the
  caller are reduced modulo \<open>SIZE\<close> as the C arithmetic does; running sums of piece
  lengths, which the buffer invariant bounds by the cached total length, are plain
  natural-number sums.  Heap allocation (malloc, realloc) is assumed to succeed.
\<close>

definition SIZE :: nat where
  "SIZE = 2 ^ 32"

definition size_add :: "nat \<Rightarrow> nat \<Rightarrow> nat" where
  "size_add a c = (a + c) mod SIZE"

definition size_sub :: "nat \<Rightarrow> nat \<Rightarrow> nat" where
  "size_sub a c = (a + SIZE - c) mod SIZE"

definition to_long :: "nat \<Rightarrow> int" where
  "to_long i = (if i < 2 ^ 31 then int i else int i - 2 ^ 32)"

section \<open>The piece table (buffer.h, buffer.c)\<close>

datatype PieceSource = SOURCE_ORIGINAL | SOURCE_ADD

record Piece =
  piece_source :: PieceSource
  piece_start :: nat
  piece_length :: nat

text \<open>
  The piece array is a list with one entry per allocated slot (\<open>piece_capacity\<close> of
  them); the first \<open>piece_count\<close> slots are in use.  The original text and the used
  part of the add buffer are byte lists, so \<open>original_length\<close> and \<open>add_length\<close> are
  their lengths.  The line index holds one start offset per line.
\<close>

record Buffer =
  original :: string
  add_buffer :: string
  add_capacity :: nat
  pieces :: "Piece list"
  piece_count :: nat
  piece_capacity :: nat
  total_length :: nat
  line_starts :: "nat list"
  line_count :: nat
  lines_dirty :: bool

text \<open>
  A call either returns or faults: it never returns (\<open>Hang\<close>), it writes outside the
  allocated piece array (\<open>Out_Of_Bounds\<close>), or it reads and writes through a pointer
  into a piece array that \<^verbatim>\<open>realloc\<close> has released (\<open>Dangling_Pointer\<close>).  C leaves
  the last two undefined.
\<close>

datatype fault = Hang | Out_Of_Bounds | Dangling_Pointer

definition INITIAL_ADD_CAPACITY :: nat where
  "INITIAL_ADD_CAPACITY = 4096"

definition INITIAL_PIECE_CAPACITY :: nat where
  "INITIAL_PIECE_CAPACITY = 64"

definition original_length :: "Buffer \<Rightarrow> nat" where
  "original_length b = length (original b)"

definition add_length :: "Buffer \<Rightarrow> nat" where
  "add_length b = length (add_buffer b)"

text \<open>The value of a slot that has been allocated and not yet written.\<close>

definition unused_piece :: Piece where
  "unused_piece = \<lparr>piece_source = SOURCE_ORIGINAL, piece_start = 0, piece_length = 0\<rparr>"

text \<open>\<^verbatim>\<open>memmove(&arr[dst], &arr[src], n * sizeof *arr)\<close> inside one array.\<close>

definition memmove :: "'a list \<Rightarrow> nat \<Rightarrow> nat \<Rightarrow> nat \<Rightarrow> 'a list" where
  "memmove arr dst src n = take dst arr @ take n (drop src arr) @ drop (dst + n) arr"

text \<open>The doubling loop of \<^verbatim>\<open>ensure_add_capacity\<close>; \<open>None\<close> when it never ends.\<close>

partial_function (option) grow_add_capacity :: "nat \<Rightarrow> nat \<Rightarrow> nat option" where
  "grow_add_capacity new_capacity needed =
     (if new_capacity < needed then grow_add_capacity (new_capacity * 2) needed
      else Some new_capacity)"

declare grow_add_capacity.simps [code]

definition ensure_add_capacity :: "Buffer \<Rightarrow> nat \<Rightarrow> (bool \<times> Buffer) option" where
  "ensure_add_capacity b additional =
     (let needed = add_length b + additional in
      if needed \<le> add_capacity b then Some (True, b)
      else case grow_add_capacity (add_capacity b * 2) needed of
             None \<Rightarrow> None
           | Some new_capacity \<Rightarrow> Some (True, b\<lparr>add_capacity := new_capacity\<rparr>))"

definition ensure_piece_capacity :: "Buffer \<Rightarrow> bool \<times> Buffer" where
  "ensure_piece_capacity b =
     (if piece_count b < piece_capacity b then (True, b)
      else let new_capacity = piece_capacity b * 2 in
        (True, b\<lparr>pieces := pieces b @ replicate (new_capacity - piece_capacity b) unused_piece,
                  piece_capacity := new_capacity\<rparr>))"

text \<open>The pieces in use: \<^verbatim>\<open>pieces[0 .. piece_count)\<close>.\<close>

definition used_pieces :: "Buffer \<Rightarrow> Piece list" where
  "used_pieces b = take (piece_count b) (pieces b)"

fun find_piece_loop :: "Piece list \<Rightarrow> nat \<Rightarrow> nat \<Rightarrow> nat \<Rightarrow> (nat \<times> nat) option" where
  "find_piece_loop [] position i current_pos = None"
| "find_piece_loop (p # ps) position i current_pos =
     (if position < current_pos + piece_length p then Some (i, position - current_pos)
      else find_piece_loop ps position (i + 1) (current_pos + piece_length p))"

definition find_piece_at :: "Buffer \<Rightarrow> nat \<Rightarrow> (nat \<times> nat) option" where
  "find_piece_at b position =
     (case find_piece_loop (used_pieces b) position 0 0 of
        Some r \<Rightarrow> Some r
      | None \<Rightarrow> if position = total_length b then Some (piece_count b, 0) else None)"

text \<open>
  \<^verbatim>\<open>buffer_create\<close>: the argument is the C string without its terminator, \<open>None\<close> for
  a null pointer.
\<close>

definition buffer_create :: "string option \<Rightarrow> Buffer" where
  "buffer_create initial_content =
     (let b = \<lparr>original = [], add_buffer = [], add_capacity = INITIAL_ADD_CAPACITY,
                pieces = replicate INITIAL_PIECE_CAPACITY unused_piece, piece_count = 0,
                piece_capacity = INITIAL_PIECE_CAPACITY, total_length = 0,
                line_starts = [], line_count = 0, lines_dirty = True\<rparr>
      in case initial_content of
           None \<Rightarrow> b
         | Some s \<Rightarrow>
             if s \<noteq> [] then
               b\<lparr>original := s,
                 pieces := (pieces b)[0 := \<lparr>piece_source = SOURCE_ORIGINAL, piece_start = 0,
                                            piece_length = length s\<rparr>],
                 piece_count := 1, total_length := length s\<rparr>
             else b)"

definition buffer_length :: "Buffer \<Rightarrow> nat" where
  "buffer_length b = total_length b"

definition piece_storage :: "Buffer \<Rightarrow> Piece \<Rightarrow> string" where
  "piece_storage b p =
     (case piece_source p of SOURCE_ORIGINAL \<Rightarrow> original b | SOURCE_ADD \<Rightarrow> add_buffer b)"

subsection \<open>buffer\_insert\<close>

text \<open>
  The loop \<^verbatim>\<open>while (piece_count + 2 > piece_capacity) if (!ensure_piece_capacity(b)) return false;\<close>
  of the split branch.  \<open>None\<close>: the loop never ends; \<open>Some (False, _)\<close>: it left by
  the \<^verbatim>\<open>return false\<close>.
\<close>

partial_function (option) reserve_two_pieces :: "Buffer \<Rightarrow> (bool \<times> Buffer) option" where
  "reserve_two_pieces b =
     (if piece_count b + 2 > piece_capacity b then
        (if fst (ensure_piece_capacity b)
         then reserve_two_pieces (snd (ensure_piece_capacity b))
         else Some (False, snd (ensure_piece_capacity b)))
      else Some (True, b))"

declare reserve_two_pieces.simps [code]

definition insert_done :: "Buffer \<Rightarrow> nat \<Rightarrow> fault + (bool \<times> Buffer)" where
  "insert_done b n = Inr (True, b\<lparr>total_length := size_add (total_length b) n, lines_dirty := True\<rparr>)"

definition insert_at_end :: "Buffer \<Rightarrow> Piece \<Rightarrow> nat \<Rightarrow> fault + (bool \<times> Buffer)" where
  "insert_at_end b new_piece n =
     (case ensure_piece_capacity b of
        (False, b') \<Rightarrow> Inr (False, b')
      | (True, b') \<Rightarrow>
          insert_done (b'\<lparr>pieces := (pieces b')[piece_count b' := new_piece],
                          piece_count := piece_count b' + 1\<rparr>) n)"

definition insert_before_piece :: "Buffer \<Rightarrow> nat \<Rightarrow> Piece \<Rightarrow> nat \<Rightarrow> fault + (bool \<times> Buffer)" where
  "insert_before_piece b piece_idx new_piece n =
     (case ensure_piece_capacity b of
        (False, b') \<Rightarrow> Inr (False, b')
      | (True, b') \<Rightarrow>
          insert_done (b'\<lparr>pieces := (memmove (pieces b') (piece_idx + 1) piece_idx
                                        (piece_count b' - piece_idx))[piece_idx := new_piece],
                          piece_count := piece_count b' + 1\<rparr>) n)"

definition insert_split_piece ::
  "Buffer \<Rightarrow> nat \<Rightarrow> nat \<Rightarrow> Piece \<Rightarrow> nat \<Rightarrow> fault + (bool \<times> Buffer)" where
  "insert_split_piece b piece_idx offset new_piece n =
     (let old = pieces b ! piece_idx;
          left = \<lparr>piece_source = piece_source old, piece_start = piece_start old,
                  piece_length = offset\<rparr>;
          right = \<lparr>piece_source = piece_source old, piece_start = piece_start old + offset,
                   piece_length = piece_length old - offset\<rparr>
      in case reserve_two_pieces b of
           None \<Rightarrow> Inl Hang
         | Some (False, b') \<Rightarrow> Inr (False, b')
         | Some (True, b') \<Rightarrow>
             insert_done (b'\<lparr>pieces := (memmove (pieces b') (piece_idx + 3) (piece_idx + 1)
                                           (piece_count b' - piece_idx - 1))
                                        [piece_idx := left, piece_idx + 1 := new_piece,
                                         piece_idx + 2 := right],
                             piece_count := piece_count b' + 2\<rparr>) n)"

text \<open>
  \<^verbatim>\<open>buffer_insert(buffer, position, text, length)\<close>: \<open>text\<close> is \<open>None\<close> for a null
  pointer, otherwise the bytes it points to, of which the first \<open>n\<close> are copied (the
  caller passes \<open>n \<le> length s\<close>).
\<close>

definition buffer_insert ::
  "Buffer \<Rightarrow> nat \<Rightarrow> string option \<Rightarrow> nat \<Rightarrow> fault + (bool \<times> Buffer)" where
  "buffer_insert b position text n =
     (case text of
        None \<Rightarrow> Inr (False, b)
      | Some s \<Rightarrow>
          if n = 0 then Inr (False, b)
          else if position > total_length b then Inr (False, b)
          else case ensure_add_capacity b n of
                 None \<Rightarrow> Inl Hang
               | Some (False, b1) \<Rightarrow> Inr (False, b1)
               | Some (True, b1) \<Rightarrow>
                   let add_start = add_length b1;
                       b2 = b1\<lparr>add_buffer := add_buffer b1 @ take n s\<rparr>
                   in case find_piece_at b2 position of
                        None \<Rightarrow> Inr (False, b2)
                      | Some (piece_idx, offset) \<Rightarrow>
                          let new_piece = \<lparr>piece_source = SOURCE_ADD, piece_start = add_start,
                                           piece_length = n\<rparr>
                          in if piece_idx = piece_count b2 then insert_at_end b2 new_piece n
                             else if offset = 0 then insert_before_piece b2 piece_idx new_piece n
                             else insert_split_piece b2 piece_idx offset new_piece n)"

subsection \<open>buffer\_delete\<close>

text \<open>The sweep that removes pieces of length 0, as a loop over the array.\<close>

function remove_empty_pieces :: "Piece list \<Rightarrow> nat \<Rightarrow> nat \<Rightarrow> Piece list \<times> nat" where
  "remove_empty_pieces arr cnt i =
     (if i < cnt then
        (if piece_length (arr ! i) = 0
         then remove_empty_pieces (memmove arr i (i + 1) (cnt - i - 1)) (cnt - 1) i
         else remove_empty_pieces arr cnt (i + 1))
      else (arr, cnt))"
  by pat_completeness auto
termination
  by (relation "measure (\<lambda>(arr, cnt, i). cnt - i)") auto

declare remove_empty_pieces.simps [simp del]

definition delete_done :: "Buffer \<Rightarrow> nat \<Rightarrow> fault + (bool \<times> Buffer)" where
  "delete_done b n = Inr (True, b\<lparr>total_length := size_sub (total_length b) n, lines_dirty := True\<rparr>)"

text \<open>
  The one-piece branch.  \<^verbatim>\<open>piece\<close> is a pointer into the piece array taken before
  \<^verbatim>\<open>ensure_piece_capacity\<close> runs; when that call reallocates the array, the split
  case goes on to read and write through the stale pointer.
\<close>

definition delete_within_piece ::
  "Buffer \<Rightarrow> nat \<Rightarrow> nat \<Rightarrow> nat \<Rightarrow> nat \<Rightarrow> fault + (bool \<times> Buffer)" where
  "delete_within_piece b start_piece start_offset end_offset n =
     (let piece = pieces b ! start_piece in
      if start_offset = 0 \<and> end_offset = piece_length piece then
        delete_done (b\<lparr>pieces := memmove (pieces b) start_piece (start_piece + 1)
                                   (piece_count b - start_piece - 1),
                       piece_count := piece_count b - 1\<rparr>) n
      else if start_offset = 0 then
        delete_done (b\<lparr>pieces := (pieces b)[start_piece :=
                          piece\<lparr>piece_start := size_add (piece_start piece) n,
                                piece_length := size_sub (piece_length piece) n\<rparr>]\<rparr>) n
      else if end_offset = piece_length piece then
        delete_done (b\<lparr>pieces := (pieces b)[start_piece := piece\<lparr>piece_length := start_offset\<rparr>]\<rparr>) n
      else
        (case ensure_piece_capacity b of
           (False, b') \<Rightarrow> Inr (False, b')
         | (True, b') \<Rightarrow>
             if piece_capacity b' \<noteq> piece_capacity b then Inl Dangling_Pointer else
             let right = \<lparr>piece_source = piece_source piece,
                          piece_start = piece_start piece + end_offset,
                          piece_length = piece_length piece - end_offset\<rparr>;
                 arr = (pieces b')[start_piece := piece\<lparr>piece_length := start_offset\<rparr>]
             in delete_done (b'\<lparr>pieces := (memmove arr (start_piece + 2) (start_piece + 1)
                                             (piece_count b' - start_piece - 1))
                                           [start_piece + 1 := right],
                                piece_count := piece_count b' + 1\<rparr>) n))"

text \<open>
  The multi-piece branch.  With a wrapped \<open>position + length\<close> the end piece can lie
  before the start piece; then \<open>remove_count\<close> wraps, the \<^verbatim>\<open>memmove\<close> copies towards
  higher slots and \<open>piece_count\<close> grows.  A write past the allocated slots is the
  fault \<open>Out_Of_Bounds\<close>.
\<close>

definition delete_across_pieces ::
  "Buffer \<Rightarrow> nat \<Rightarrow> nat \<Rightarrow> nat \<Rightarrow> nat \<Rightarrow> nat \<Rightarrow> fault + (bool \<times> Buffer)" where
  "delete_across_pieces b start_piece start_offset end_piece end_offset n =
     (if start_piece \<ge> piece_capacity b then Inl Out_Of_Bounds
      else
        let arr1 = (pieces b)[start_piece := (pieces b ! start_piece)\<lparr>piece_length := start_offset\<rparr>];
            arr2 = (if end_piece < piece_count b
                    then arr1[end_piece := (arr1 ! end_piece)
                           \<lparr>piece_start := piece_start (arr1 ! end_piece) + end_offset,
                            piece_length := piece_length (arr1 ! end_piece) - end_offset\<rparr>]
                    else arr1);
            remove_count = size_sub (size_sub end_piece start_piece) 1
        in if remove_count > 0 \<and> start_piece + 1 + (piece_count b - end_piece) > piece_capacity b
           then Inl Out_Of_Bounds
           else
             let arr3 = (if remove_count > 0
                         then memmove arr2 (start_piece + 1) end_piece (piece_count b - end_piece)
                         else arr2);
                 cnt3 = (if remove_count > 0 then size_sub (piece_count b) remove_count
                         else piece_count b);
                 (arr4, cnt4) = remove_empty_pieces arr3 cnt3 0
             in delete_done (b\<lparr>pieces := arr4, piece_count := cnt4\<rparr>) n)"

definition buffer_delete :: "Buffer \<Rightarrow> nat \<Rightarrow> nat \<Rightarrow> fault + (bool \<times> Buffer)" where
  "buffer_delete b position n =
     (if n = 0 then Inr (False, b)
      else if size_add position n > total_length b then Inr (False, b)
      else case find_piece_at b position of
             None \<Rightarrow> Inr (False, b)
           | Some (start_piece, start_offset) \<Rightarrow>
               (case find_piece_at b (size_add position n) of
                  None \<Rightarrow> Inr (False, b)
                | Some (end_piece, end_offset) \<Rightarrow>
                    if start_piece = end_piece
                    then delete_within_piece b start_piece start_offset end_offset n
                    else delete_across_pieces b start_piece start_offset end_piece end_offset n))"

subsection \<open>Reading text\<close>

definition buffer_char_at :: "Buffer \<Rightarrow> nat \<Rightarrow> char" where
  "buffer_char_at b position =
     (if position \<ge> total_length b then CHR 0x00
      else case find_piece_at b position of
             None \<Rightarrow> CHR 0x00
           | Some (piece_idx, offset) \<Rightarrow>
               let piece = pieces b ! piece_idx
               in piece_storage b piece ! (piece_start piece + offset))"

text \<open>
  The copy loop of \<^verbatim>\<open>buffer_get_text\<close>: \<open>result\<close> holds the bytes copied so far and
  \<open>written\<close> counts them.
\<close>

fun get_text_loop ::
  "Buffer \<Rightarrow> Piece list \<Rightarrow> nat \<Rightarrow> nat \<Rightarrow> nat \<Rightarrow> nat \<Rightarrow> string \<Rightarrow> string" where
  "get_text_loop b [] st n current_pos written result = result"
| "get_text_loop b (p # ps) st n current_pos written result =
     (if written < n then
        (let piece_end = current_pos + piece_length p in
         if piece_end > st then
           (let copy_start = (if st > current_pos then st - current_pos else 0);
                copy_end = (if size_add st n < piece_end
                            then size_sub (size_add st n) current_pos
                            else piece_length p);
                copy_len = size_sub copy_end copy_start
            in get_text_loop b ps st n piece_end (size_add written copy_len)
                 (result @ take copy_len (drop (piece_start p + copy_start) (piece_storage b p))))
         else get_text_loop b ps st n piece_end written result)
      else result)"

definition buffer_get_text :: "Buffer \<Rightarrow> nat \<Rightarrow> nat \<Rightarrow> string option" where
  "buffer_get_text b st n =
     (if size_add st n > total_length b then None
      else Some (get_text_loop b (used_pieces b) st n 0 0 []))"

definition buffer_get_all :: "Buffer \<Rightarrow> string option" where
  "buffer_get_all b = buffer_get_text b 0 (total_length b)"

subsection \<open>The line index\<close>

fun count_newlines :: "string \<Rightarrow> nat \<Rightarrow> nat" where
  "count_newlines [] line_cnt = line_cnt"
| "count_newlines (c # cs) line_cnt =
     count_newlines cs (if c = CHR 0x0A then line_cnt + 1 else line_cnt)"

fun build_line_index :: "string \<Rightarrow> nat \<Rightarrow> nat list" where
  "build_line_index [] i = []"
| "build_line_index (c # cs) i =
     (if c = CHR 0x0A then (i + 1) # build_line_index cs (i + 1)
      else build_line_index cs (i + 1))"

definition rebuild_line_cache :: "Buffer \<Rightarrow> Buffer" where
  "rebuild_line_cache b =
     (if \<not> lines_dirty b then b
      else case buffer_get_all b of
             None \<Rightarrow> b
           | Some text \<Rightarrow>
               b\<lparr>line_starts := 0 # build_line_index (take (total_length b) text) 0,
                 line_count := count_newlines (take (total_length b) text) 1,
                 lines_dirty := False\<rparr>)"

definition buffer_line_count :: "Buffer \<Rightarrow> nat \<times> Buffer" where
  "buffer_line_count b = (let b' = rebuild_line_cache b in (line_count b', b'))"

definition buffer_line_start :: "Buffer \<Rightarrow> nat \<Rightarrow> nat \<times> Buffer" where
  "buffer_line_start b line_number =
     (let b' = rebuild_line_cache b in
      if line_number \<ge> line_count b' then (total_length b', b')
      else (line_starts b' ! line_number, b'))"

definition buffer_line_length :: "Buffer \<Rightarrow> nat \<Rightarrow> nat \<times> Buffer" where
  "buffer_line_length b line_number =
     (let b' = rebuild_line_cache b in
      if line_number \<ge> line_count b' then (0, b')
      else
        let line_begin = line_starts b' ! line_number;
            line_end = (if line_number + 1 < line_count b' then line_starts b' ! (line_number + 1)
                        else total_length b')
        in (size_sub line_end line_begin, b'))"

function pos_to_line_col_loop ::
  "nat list \<Rightarrow> nat \<Rightarrow> nat \<Rightarrow> nat \<Rightarrow> nat \<times> nat \<Rightarrow> nat \<times> nat" where
  "pos_to_line_col_loop starts line_cnt position i (line, col) =
     (if i < line_cnt then
        (if i + 1 < line_cnt \<and> starts ! (i + 1) \<le> position
         then pos_to_line_col_loop starts line_cnt position (i + 1)
                (i + 1, position - starts ! (i + 1))
         else if starts ! i \<le> position then (i, position - starts ! i)
         else pos_to_line_col_loop starts line_cnt position (i + 1) (line, col))
      else (line, col))"
  by pat_completeness auto
termination
  by (relation "measure (\<lambda>(starts, line_cnt, position, i, lc). line_cnt - i)") auto

declare pos_to_line_col_loop.simps [simp del]

definition buffer_pos_to_line_col :: "Buffer \<Rightarrow> nat \<Rightarrow> (nat \<times> nat) \<times> Buffer" where
  "buffer_pos_to_line_col b position =
     (let b' = rebuild_line_cache b in
      (pos_to_line_col_loop (line_starts b') (line_count b') position 0 (0, position), b'))"

definition buffer_line_col_to_pos :: "Buffer \<Rightarrow> nat \<Rightarrow> nat \<Rightarrow> nat \<times> Buffer" where
  "buffer_line_col_to_pos b line col =
     (let b1 = rebuild_line_cache b;
          line' = (if line \<ge> line_count b1 then size_sub (line_count b1) 1 else line);
          line_start = line_starts b1 ! line';
          (line_len, b2) = buffer_line_length b1 line';
          col' = (if col > line_len then line_len else col)
      in (size_add line_start col', b2))"

subsection \<open>Search and replace\<close>

text \<open>
  The needle is a C string without its terminator, so \<^verbatim>\<open>strncmp(text + i, needle, needle_len) == 0\<close>
  holds exactly when the \<open>needle_len\<close> bytes of the text at \<open>i\<close> are the needle.  The
  result is the \<^verbatim>\<open>long\<close> the function returns.
\<close>

function find_next_loop :: "string \<Rightarrow> nat \<Rightarrow> string \<Rightarrow> nat \<Rightarrow> int" where
  "find_next_loop text len needle i =
     (if i + length needle \<le> len then
        (if take (length needle) (drop i text) = needle then to_long i
         else find_next_loop text len needle (i + 1))
      else - 1)"
  by pat_completeness auto
termination
  by (relation "measure (\<lambda>(text, len, needle, i). len + 1 - i)") auto

declare find_next_loop.simps [simp del]

definition buffer_find_next :: "Buffer \<Rightarrow> nat \<Rightarrow> string option \<Rightarrow> int" where
  "buffer_find_next b st needle =
     (case needle of
        None \<Rightarrow> - 1
      | Some nd \<Rightarrow>
          if length nd = 0 then - 1
          else case buffer_get_all b of
                 None \<Rightarrow> - 1
               | Some text \<Rightarrow> find_next_loop text (total_length b) nd st)"

definition buffer_replace ::
  "Buffer \<Rightarrow> nat \<Rightarrow> nat \<Rightarrow> string option \<Rightarrow> nat \<Rightarrow> fault + (bool \<times> Buffer)" where
  "buffer_replace b position old_length new_text new_length =
     (case buffer_delete b position old_length of
        Inl f \<Rightarrow> Inl f
      | Inr (False, b1) \<Rightarrow> Inr (False, b1)
      | Inr (True, b1) \<Rightarrow>
          if new_length > 0 then
            (case buffer_insert b1 position new_text new_length of
               Inl f \<Rightarrow> Inl f
             | Inr (False, b2) \<Rightarrow> Inr (False, b2)
             | Inr (True, b2) \<Rightarrow> Inr (True, b2))
          else Inr (True, b1))"

section \<open>The editor (main.c)\<close>

datatype EditorMode = MODE_NORMAL | MODE_INSERT | MODE_VISUAL | MODE_COMMAND | MODE_SEARCH

record Cursor =
  cursor_position :: nat
  cursor_line :: nat
  cursor_column :: nat
  preferred_column :: nat

text \<open>The global variables of main.c; \<open>g_buffer = None\<close> is the null pointer.\<close>

record Editor =
  g_buffer :: "Buffer option"
  g_cursor :: Cursor
  g_mode :: EditorMode
  g_selection_start :: nat
  g_has_selection :: bool
  g_search_pattern :: string

definition cursor_zero :: Cursor where
  "cursor_zero = \<lparr>cursor_position = 0, cursor_line = 0, cursor_column = 0, preferred_column = 0\<rparr>"

definition editor_init :: "Editor \<Rightarrow> int \<times> Editor" where
  "editor_init e =
     (1, e\<lparr>g_buffer := Some (buffer_create (Some [])), g_cursor := cursor_zero,
           g_mode := MODE_NORMAL, g_has_selection := False\<rparr>)"

definition editor_load_text :: "Editor \<Rightarrow> string option \<Rightarrow> int \<times> Editor" where
  "editor_load_text e text =
     (1, e\<lparr>g_buffer := Some (buffer_create text), g_cursor := cursor_zero\<rparr>)"

definition get_buffer_length :: "Editor \<Rightarrow> nat" where
  "get_buffer_length e = (case g_buffer e of None \<Rightarrow> 0 | Some b \<Rightarrow> buffer_length b)"

definition get_all_text :: "Editor \<Rightarrow> string option" where
  "get_all_text e = (case g_buffer e of None \<Rightarrow> None | Some b \<Rightarrow> buffer_get_all b)"

definition insert_text :: "Editor \<Rightarrow> nat \<Rightarrow> string option \<Rightarrow> fault + (int \<times> Editor)" where
  "insert_text e position text =
     (case g_buffer e of
        None \<Rightarrow> Inr (0, e)
      | Some b \<Rightarrow>
          (case text of
             None \<Rightarrow> Inr (0, e)
           | Some s \<Rightarrow>
               (case buffer_insert b position text (length s) of
                  Inl f \<Rightarrow> Inl f
                | Inr (ok, b') \<Rightarrow> Inr (if ok then 1 else 0, e\<lparr>g_buffer := Some b'\<rparr>))))"

definition delete_text :: "Editor \<Rightarrow> nat \<Rightarrow> nat \<Rightarrow> fault + (int \<times> Editor)" where
  "delete_text e position n =
     (case g_buffer e of
        None \<Rightarrow> Inr (0, e)
      | Some b \<Rightarrow>
          (case buffer_delete b position n of
             Inl f \<Rightarrow> Inl f
           | Inr (ok, b') \<Rightarrow> Inr (if ok then 1 else 0, e\<lparr>g_buffer := Some b'\<rparr>)))"

definition update_cursor_line_col :: "Editor \<Rightarrow> Editor" where
  "update_cursor_line_col e =
     (case g_buffer e of
        None \<Rightarrow> e
      | Some b \<Rightarrow>
          (case buffer_pos_to_line_col b (cursor_position (g_cursor e)) of
             ((line, col), b') \<Rightarrow>
               e\<lparr>g_buffer := Some b',
                 g_cursor := (g_cursor e)\<lparr>cursor_line := line, cursor_column := col\<rparr>\<rparr>))"

definition clamp_cursor :: "Editor \<Rightarrow> Editor" where
  "clamp_cursor e =
     (case g_buffer e of
        None \<Rightarrow> e
      | Some b \<Rightarrow>
          let len = buffer_length b;
              e1 = (if cursor_position (g_cursor e) > len
                    then e\<lparr>g_cursor := (g_cursor e)\<lparr>cursor_position := len\<rparr>\<rparr> else e)
          in update_cursor_line_col e1)"

definition get_cursor_position :: "Editor \<Rightarrow> nat" where
  "get_cursor_position e = cursor_position (g_cursor e)"

definition set_cursor_position :: "Editor \<Rightarrow> nat \<Rightarrow> Editor" where
  "set_cursor_position e position =
     (let e1 = clamp_cursor (e\<lparr>g_cursor := (g_cursor e)\<lparr>cursor_position := position\<rparr>\<rparr>)
      in e1\<lparr>g_cursor := (g_cursor e1)\<lparr>preferred_column := cursor_column (g_cursor e1)\<rparr>\<rparr>)"

definition set_mode :: "Editor \<Rightarrow> EditorMode \<Rightarrow> Editor" where
  "set_mode e mode =
     (let e1 = e\<lparr>g_mode := mode\<rparr> in
      if mode = MODE_VISUAL
      then e1\<lparr>g_selection_start := cursor_position (g_cursor e1), g_has_selection := True\<rparr>
      else if mode = MODE_NORMAL then e1\<lparr>g_has_selection := False\<rparr>
      else e1)"

subsection \<open>motion\_e\<close>

definition is_space :: "char \<Rightarrow> bool" where
  "is_space c = (c = CHR '' '' \<or> c = CHR 0x09 \<or> c = CHR 0x0A)"

function skip_whitespace :: "Buffer \<Rightarrow> nat \<Rightarrow> nat \<Rightarrow> nat" where
  "skip_whitespace b len pos =
     (if pos < len then
        (if \<not> is_space (buffer_char_at b pos) then pos
         else skip_whitespace b len (pos + 1))
      else pos)"
  by pat_completeness auto
termination
  by (relation "measure (\<lambda>(b, len, pos). len - pos)") auto

declare skip_whitespace.simps [simp del]

text \<open>The loop \<^verbatim>\<open>while (pos < len - 1)\<close>; \<open>bound\<close> is the value of \<^verbatim>\<open>len - 1\<close>.\<close>

function word_end :: "Buffer \<Rightarrow> nat \<Rightarrow> nat \<Rightarrow> nat" where
  "word_end b bound pos =
     (if pos < bound then
        (if is_space (buffer_char_at b (pos + 1)) then pos
         else word_end b bound (pos + 1))
      else pos)"
  by pat_completeness auto
termination
  by (relation "measure (\<lambda>(b, bound, pos). bound - pos)") auto

declare word_end.simps [simp del]

definition motion_e :: "Editor \<Rightarrow> Editor" where
  "motion_e e =
     (case g_buffer e of
        None \<Rightarrow> e
      | Some b \<Rightarrow>
          let len = buffer_length b;
              pos = cursor_position (g_cursor e);
              pos1 = (if pos < len then pos + 1 else pos);
              pos2 = skip_whitespace b len pos1;
              pos3 = word_end b (size_sub len 1) pos2;
              e1 = update_cursor_line_col (e\<lparr>g_cursor := (g_cursor e)\<lparr>cursor_position := pos3\<rparr>\<rparr>)
          in e1\<lparr>g_cursor := (g_cursor e1)\<lparr>preferred_column := cursor_column (g_cursor e1)\<rparr>\<rparr>)"

subsection \<open>delete\_line, selection, search\<close>

definition delete_line :: "Editor \<Rightarrow> fault + (int \<times> Editor)" where
  "delete_line e =
     (case g_buffer e of
        None \<Rightarrow> Inr (0, e)
      | Some b \<Rightarrow>
          let (line_start, b1) = buffer_line_start b (cursor_line (g_cursor e));
              (line_len, b2) = buffer_line_length b1 (cursor_line (g_cursor e))
          in case buffer_delete b2 line_start line_len of
               Inl f \<Rightarrow> Inl f
             | Inr (True, b3) \<Rightarrow>
                 Inr (1, clamp_cursor (e\<lparr>g_buffer := Some b3,
                            g_cursor := (g_cursor e)\<lparr>cursor_position := line_start\<rparr>\<rparr>))
             | Inr (False, b3) \<Rightarrow> Inr (0, e\<lparr>g_buffer := Some b3\<rparr>))"

definition get_selection_start :: "Editor \<Rightarrow> nat" where
  "get_selection_start e =
     (if \<not> g_has_selection e then cursor_position (g_cursor e)
      else if g_selection_start e < cursor_position (g_cursor e) then g_selection_start e
      else cursor_position (g_cursor e))"

definition get_selection_end :: "Editor \<Rightarrow> nat" where
  "get_selection_end e =
     (if \<not> g_has_selection e then cursor_position (g_cursor e)
      else if g_selection_start e > cursor_position (g_cursor e) then g_selection_start e
      else cursor_position (g_cursor e))"

definition set_search_pattern :: "Editor \<Rightarrow> string \<Rightarrow> Editor" where
  "set_search_pattern e pattern = e\<lparr>g_search_pattern := take 255 pattern\<rparr>"

definition search_hit :: "Editor \<Rightarrow> int \<Rightarrow> int \<times> Editor" where
  "search_hit e found =
     (let e1 = update_cursor_line_col (e\<lparr>g_cursor := (g_cursor e)\<lparr>cursor_position := nat found\<rparr>\<rparr>)
      in (1, e1\<lparr>g_cursor := (g_cursor e1)\<lparr>preferred_column := cursor_column (g_cursor e1)\<rparr>\<rparr>))"

definition search_next :: "Editor \<Rightarrow> int \<times> Editor" where
  "search_next e =
     (case g_buffer e of
        None \<Rightarrow> (0, e)
      | Some b \<Rightarrow>
          if g_search_pattern e = [] then (0, e)
          else
            let found = buffer_find_next b (size_add (cursor_position (g_cursor e)) 1)
                          (Some (g_search_pattern e))
            in if found \<ge> 0 then search_hit e found
               else
                 let found' = buffer_find_next b 0 (Some (g_search_pattern e))
                 in if found' \<ge> 0 then search_hit e found' else (0, e))"

section \<open>Document content, the buffer invariant, operation sequences\<close>

text \<open>The bytes a piece designates, and the document: the pieces in use, concatenated.\<close>

definition piece_text :: "Buffer \<Rightarrow> Piece \<Rightarrow> string" where
  "piece_text b p = take (piece_length p) (drop (piece_start p) (piece_storage b p))"

definition content :: "Buffer \<Rightarrow> string" where
  "content b = concat (map (piece_text b) (used_pieces b))"

definition piece_ok :: "Buffer \<Rightarrow> Piece \<Rightarrow> bool" where
  "piece_ok b p =
     (0 < piece_length p \<and> piece_start p + piece_length p \<le> length (piece_storage b p))"

definition line_cache_ok :: "Buffer \<Rightarrow> bool" where
  "line_cache_ok b =
     (lines_dirty b \<or>
      (line_starts b = 0 # build_line_index (content b) 0 \<and>
       line_count b = count_newlines (content b) 1))"

text \<open>
  A well-formed buffer: the piece array has \<open>piece_capacity\<close> slots of which at most
  all are in use, the capacities are those \<^verbatim>\<open>buffer_create\<close> and the doubling steps
  produce (at least 2 piece slots, a non-empty add buffer), the cached length is the
  sum of the piece lengths and fits \<^verbatim>\<open>size_t\<close>, every piece in use is non-empty and
  lies inside its storage, and a clean line index describes the document.
\<close>

definition buffer_ok :: "Buffer \<Rightarrow> bool" where
  "buffer_ok b =
     (length (pieces b) = piece_capacity b \<and> piece_count b \<le> piece_capacity b \<and>
      2 \<le> piece_capacity b \<and> 0 < add_capacity b \<and>
      total_length b = sum_list (map piece_length (used_pieces b)) \<and>
      total_length b < SIZE \<and>
      list_all (piece_ok b) (used_pieces b) \<and>
      line_cache_ok b)"

text \<open>Sequences of insertions and deletions; a fault ends the run.\<close>

datatype buffer_op = Insert nat string | Delete nat nat

fun apply_op :: "Buffer \<Rightarrow> buffer_op \<Rightarrow> fault + (bool \<times> Buffer)" where
  "apply_op b (Insert position s) = buffer_insert b position (Some s) (length s)"
| "apply_op b (Delete position n) = buffer_delete b position n"

fun run_ops :: "Buffer \<Rightarrow> buffer_op list \<Rightarrow> fault + Buffer" where
  "run_ops b [] = Inr b"
| "run_ops b (x # xs) =
     (case apply_op b x of Inl f \<Rightarrow> Inl f | Inr (ok, b') \<Rightarrow> run_ops b' xs)"

text \<open>What a caller sees of a call on a buffer: the fault, or the flag and the document.\<close>

definition observe :: "fault + (bool \<times> Buffer) \<Rightarrow> fault + (bool \<times> string option)" where
  "observe r = (case r of Inl f \<Rightarrow> Inl f | Inr (ok, b) \<Rightarrow> Inr (ok, buffer_get_all b))"

section \<open>Sizes\<close>

lemma size_add_small: "a + c < SIZE \<Longrightarrow> size_add a c = a + c"
  by (simp add: size_add_def)

lemma size_sub_small: "c \<le> a \<Longrightarrow> a < SIZE \<Longrightarrow> size_sub a c = a - c"
proof -
  assume le: "c \<le> a" and lt: "a < SIZE"
  have "a + SIZE - c = (a - c) + SIZE" using le by arith
  then have "size_sub a c = ((a - c) + SIZE) mod SIZE" by (simp only: size_sub_def)
  also have "\<dots> = (a - c) mod SIZE" by (simp only: mod_add_self2)
  also have "\<dots> = a - c" using lt by (intro mod_less) arith
  finally show ?thesis .
qed

section \<open>The editor\<close>

lemma buffer_create_empty_total: "total_length (buffer_create (Some [])) = 0"
  by (simp add: buffer_create_def)

lemma char_at_empty: "total_length b = 0 \<Longrightarrow> buffer_char_at b position = CHR 0x00"
  by (simp add: buffer_char_at_def)

lemma word_end_empty:
  "total_length b = 0 \<Longrightarrow> pos \<le> bound \<Longrightarrow> word_end b bound pos = bound"
proof (induction b bound pos rule: word_end.induct)
  case (1 b bound pos)
  show ?case
  proof (cases "pos < bound")
    case True
    with 1 show ?thesis
      by (subst word_end.simps) (simp add: char_at_empty is_space_def)
  next
    case False
    with 1 show ?thesis by (subst word_end.simps) simp
  qed
qed

lemma skip_whitespace_empty: "skip_whitespace b 0 pos = pos"
  by (subst skip_whitespace.simps) simp

lemma rebuild_empty:
  "rebuild_line_cache (buffer_create (Some [])) =
     (buffer_create (Some []))\<lparr>line_starts := [0], line_count := 1, lines_dirty := False\<rparr>"
  by (simp add: rebuild_line_cache_def buffer_create_def buffer_get_all_def buffer_get_text_def
      size_add_def SIZE_def used_pieces_def)

text \<open>
  C4.  The claim: after every editor operation the cursor position is at most the
  buffer length, and every motion on an empty buffer leaves the cursor at 0.  On the
  empty buffer that \<^verbatim>\<open>editor_init\<close> creates, \<^verbatim>\<open>motion_e\<close> computes \<^verbatim>\<open>len - 1\<close> on
  unsigned sizes; the loop then runs the position up to the largest size value while
  the buffer length stays 0.
\<close>

theorem motion_e_empty_buffer:
  "get_cursor_position (motion_e (snd (editor_init e))) = 4294967295 \<and>
   get_buffer_length (motion_e (snd (editor_init e))) = 0"
  apply (simp add: motion_e_def editor_init_def get_cursor_position_def get_buffer_length_def
      buffer_length_def buffer_create_empty_total skip_whitespace_empty cursor_zero_def
      word_end_empty size_sub_def SIZE_def update_cursor_line_col_def buffer_pos_to_line_col_def
      rebuild_empty Let_def split: prod.splits)
  done

text \<open>
  C10.  \<^verbatim>\<open>editor_load_text\<close> resets the cursor to position 0, line 0, column 0 and
  leaves the mode, the selection flag and the selection anchor as they were, where
  \<^verbatim>\<open>editor_init\<close> resets mode and flag.  Loading a shorter document while a selection
  is active keeps the old anchor: with the anchor at 11 and the two-byte document
  \<open>hi\<close> loaded, \<^verbatim>\<open>get_selection_end\<close> returns 11, past the end of the document.
\<close>

theorem editor_load_text_keeps_selection:
  "g_cursor (snd (editor_load_text e text)) = cursor_zero \<and>
   g_mode (snd (editor_load_text e text)) = g_mode e \<and>
   g_has_selection (snd (editor_load_text e text)) = g_has_selection e \<and>
   g_selection_start (snd (editor_load_text e text)) = g_selection_start e \<and>
   g_mode (snd (editor_init e)) = MODE_NORMAL \<and>
   \<not> g_has_selection (snd (editor_init e)) \<and>
   (let e1 = snd (editor_load_text (snd (editor_init e)) (Some ''hello world''));
        e2 = set_mode (set_cursor_position e1 11) MODE_VISUAL;
        e3 = snd (editor_load_text e2 (Some ''hi''))
    in g_has_selection e3 \<and> g_selection_start e3 = 11 \<and> get_buffer_length e3 = 2 \<and>
       get_selection_end e3 = 11)"
  apply (simp add: editor_load_text_def editor_init_def cursor_zero_def Let_def)
  apply (simp add: set_mode_def set_cursor_position_def clamp_cursor_def buffer_length_def
      get_buffer_length_def get_selection_end_def update_cursor_line_col_def Let_def
      split: prod.splits)
  apply (simp add: buffer_create_def)
  done

end
